theory Spec2Isabelle
  imports Main
begin

section \<open>AbstractControlDirective: values, controls and the store\<close>

text \<open>
  The directive of \<^verbatim>\<open>packages/forms/src/directives/abstract_control_directive.ts\<close>
  forwards every property and method to the \<^verbatim>\<open>AbstractControl\<close> that its abstract
  getter \<^verbatim>\<open>control\<close> yields, or answers with a fixed default when that getter yields
  \<^verbatim>\<open>null\<close>.

  JavaScript values of type \<^verbatim>\<open>any\<close>. \<^verbatim>\<open>undefined\<close> and \<^verbatim>\<open>null\<close> are different values.
  The directive never computes with a value, it only hands it on, so numbers are kept to
  the integers.
\<close>

datatype jsval =
    JUndefined
  | JNull
  | JBool bool
  | JNum int
  | JStr string
  | JObj "(string \<times> jsval) list"

text \<open>
  Objects live in a store and are known by reference. A control is an object, and so is
  each of its two \<^verbatim>\<open>Observable\<close> streams; two streams are the same object iff their
  references are equal.
\<close>

type_synonym ref = nat
type_synonym stream_ref = nat

text \<open>\<^verbatim>\<open>ValidationErrors = {[key: string]: any}\<close>\<close>

type_synonym validation_errors = "string \<rightharpoonup> jsval"

text \<open>
  The members of \<^verbatim>\<open>AbstractControl\<close> that the directive reads, with the types the
  directive's getters give them. The class itself (\<^verbatim>\<open>../model\<close>) is not part of the
  sources: nothing is assumed about how the members relate to each other.
\<close>

record ctl =
  ctl_value :: jsval
  ctl_valid :: bool
  ctl_invalid :: bool
  ctl_pending :: bool
  ctl_disabled :: bool
  ctl_enabled :: bool
  ctl_errors :: "validation_errors option"
  ctl_pristine :: bool
  ctl_dirty :: bool
  ctl_touched :: bool
  ctl_status :: string
  ctl_untouched :: bool
  ctl_statusChanges :: stream_ref
  ctl_valueChanges :: stream_ref

text \<open>
  Modelled from the spec: the children of a control, which the missing
  \<^verbatim>\<open>AbstractControl\<close> and its subclasses keep and the directive never reads. The spec:
  a composite control is ``a Control containing named or indexed child Controls (a group
  or an ordered list)''; an index is a segment like a name. A leaf has no children.
\<close>

record node = ctl +
  ctl_children :: "string \<rightharpoonup> ref"

type_synonym store = "ref \<Rightarrow> node"

text \<open>
  The state an operation of the directive runs in: what \<^verbatim>\<open>this.control\<close> yields
  (\<open>None\<close> is \<^verbatim>\<open>null\<close>) and the store of controls. The getter \<^verbatim>\<open>control\<close> is abstract
  in the source; it is taken to read a field, so that the two reads of
  \<^verbatim>\<open>this.control\<close> in one expression agree.
\<close>

record world =
  control :: "ref option"
  heap :: store

datatype js_error = TypeError | Thrown string

text \<open>
  An operation either throws or returns a result together with the state it leaves.
\<close>

type_synonym 'a js = "world \<Rightarrow> js_error + ('a \<times> world)"

definition ret :: "'a \<Rightarrow> 'a js" where
  "ret x w = Inr (x, w)"

text \<open>
  \<^verbatim>\<open>this.control ? a : b\<close> tests the reference for truthiness: an object is truthy,
  \<^verbatim>\<open>null\<close> is not.
\<close>

definition truthy :: "ref option \<Rightarrow> bool" where
  "truthy c = (case c of None \<Rightarrow> False | Some _ \<Rightarrow> True)"

text \<open>
  \<^verbatim>\<open>this.control.f\<close>: reading a member of \<^verbatim>\<open>null\<close> throws a \<^verbatim>\<open>TypeError\<close>.
\<close>

definition member :: "(node \<Rightarrow> 'a) \<Rightarrow> 'a js" where
  "member f w =
     (case control w of
        None \<Rightarrow> Inl TypeError
      | Some r \<Rightarrow> Inr (f (heap w r), w))"

text \<open>
  The three methods of \<^verbatim>\<open>AbstractControl\<close> that the directive calls. They are code of
  the control, not of the directive, and are a parameter of the directive's operations:
  each gets the receiver, the arguments and the store, and throws or returns its result
  and the store it leaves. An optional \<^verbatim>\<open>path?: string[]\<close> that was not given is
  \<open>None\<close>.
\<close>

record ctl_methods =
  m_hasError :: "ref \<Rightarrow> string \<Rightarrow> string list option \<Rightarrow> store \<Rightarrow> js_error + (bool \<times> store)"
  m_getError :: "ref \<Rightarrow> string \<Rightarrow> string list option \<Rightarrow> store \<Rightarrow> js_error + (jsval \<times> store)"
  m_reset :: "ref \<Rightarrow> jsval \<Rightarrow> store \<Rightarrow> js_error + (unit \<times> store)"

text \<open>
  \<^verbatim>\<open>this.control.m(args)\<close>: a method call on \<^verbatim>\<open>null\<close> throws a \<^verbatim>\<open>TypeError\<close>; what
  the method throws is thrown on (the directive has no handler); the method works on the
  store of controls.
\<close>

definition invoke :: "(ref \<Rightarrow> store \<Rightarrow> js_error + ('a \<times> store)) \<Rightarrow> 'a js" where
  "invoke m w =
     (case control w of
        None \<Rightarrow> Inl TypeError
      | Some r \<Rightarrow>
          (case m r (heap w) of
             Inl e \<Rightarrow> Inl e
           | Inr (x, h') \<Rightarrow> Inr (x, w\<lparr>heap := h'\<rparr>)))"

section \<open>The directive\<close>

text \<open>
  A result of type \<^verbatim>\<open>T|null\<close> is a \<open>T option\<close> with \<open>None\<close> for \<^verbatim>\<open>null\<close>; a result
  of type \<^verbatim>\<open>any\<close> is a \<open>jsval\<close> with \<open>JNull\<close> for \<^verbatim>\<open>null\<close>.
\<close>

definition get_value :: "jsval js" where
  "get_value w = (if truthy (control w) then member ctl_value w else ret JNull w)"

definition get_valid :: "bool option js" where
  "get_valid w = (if truthy (control w) then member (\<lambda>c. Some (ctl_valid c)) w else ret None w)"

definition get_invalid :: "bool option js" where
  "get_invalid w = (if truthy (control w) then member (\<lambda>c. Some (ctl_invalid c)) w else ret None w)"

definition get_pending :: "bool option js" where
  "get_pending w = (if truthy (control w) then member (\<lambda>c. Some (ctl_pending c)) w else ret None w)"

definition get_disabled :: "bool option js" where
  "get_disabled w = (if truthy (control w) then member (\<lambda>c. Some (ctl_disabled c)) w else ret None w)"

definition get_enabled :: "bool option js" where
  "get_enabled w = (if truthy (control w) then member (\<lambda>c. Some (ctl_enabled c)) w else ret None w)"

definition get_errors :: "validation_errors option js" where
  "get_errors w = (if truthy (control w) then member ctl_errors w else ret None w)"

definition get_pristine :: "bool option js" where
  "get_pristine w = (if truthy (control w) then member (\<lambda>c. Some (ctl_pristine c)) w else ret None w)"

definition get_dirty :: "bool option js" where
  "get_dirty w = (if truthy (control w) then member (\<lambda>c. Some (ctl_dirty c)) w else ret None w)"

definition get_touched :: "bool option js" where
  "get_touched w = (if truthy (control w) then member (\<lambda>c. Some (ctl_touched c)) w else ret None w)"

definition get_status :: "string option js" where
  "get_status w = (if truthy (control w) then member (\<lambda>c. Some (ctl_status c)) w else ret None w)"

definition get_untouched :: "bool option js" where
  "get_untouched w = (if truthy (control w) then member (\<lambda>c. Some (ctl_untouched c)) w else ret None w)"

definition get_statusChanges :: "stream_ref option js" where
  "get_statusChanges w =
     (if truthy (control w) then member (\<lambda>c. Some (ctl_statusChanges c)) w else ret None w)"

definition get_valueChanges :: "stream_ref option js" where
  "get_valueChanges w =
     (if truthy (control w) then member (\<lambda>c. Some (ctl_valueChanges c)) w else ret None w)"

definition get_path :: "string list option js" where
  "get_path w = ret None w"

text \<open>
  \<^verbatim>\<open>reset(value: any = undefined)\<close>: the argument may be left out (\<open>None\<close>). A
  default parameter takes its default when the argument is left out or is
  \<^verbatim>\<open>undefined\<close>.
\<close>

definition default_param :: "jsval \<Rightarrow> jsval option \<Rightarrow> jsval" where
  "default_param d a =
     (case a of None \<Rightarrow> d | Some v \<Rightarrow> (if v = JUndefined then d else v))"

definition reset :: "ctl_methods \<Rightarrow> jsval option \<Rightarrow> unit js" where
  "reset M arg w =
     (let v = default_param JUndefined arg
      in if truthy (control w) then invoke (\<lambda>r. m_reset M r v) w else ret () w)"

definition hasError :: "ctl_methods \<Rightarrow> string \<Rightarrow> string list option \<Rightarrow> bool js" where
  "hasError M errorCode path w =
     (if truthy (control w) then invoke (\<lambda>r. m_hasError M r errorCode path) w
      else ret False w)"

definition getError :: "ctl_methods \<Rightarrow> string \<Rightarrow> string list option \<Rightarrow> jsval js" where
  "getError M errorCode path w =
     (if truthy (control w) then invoke (\<lambda>r. m_getError M r errorCode path) w
      else ret JNull w)"

section \<open>The control's own methods\<close>

text \<open>
  Modelled from the spec: \<^verbatim>\<open>AbstractControl\<close> (\<^verbatim>\<open>../model\<close>, imported by the directive)
  is missing from the sources, and with it the lookup of a descendant and the methods
  \<^verbatim>\<open>hasError\<close>, \<^verbatim>\<open>getError\<close> and \<^verbatim>\<open>reset\<close> that the directive calls. The spec, on
  the lookup: it ``resolves a sequence of string (or index) segments through nested
  composite controls down to a leaf or sub-group, returning absence if any segment does
  not resolve''.
\<close>

fun findDescendant :: "store \<Rightarrow> ref \<Rightarrow> string list \<Rightarrow> ref option" where
  "findDescendant h r [] = Some r"
| "findDescendant h r (s # ss) =
     (case ctl_children (h r) s of
        None \<Rightarrow> None
      | Some r' \<Rightarrow> findDescendant h r' ss)"

text \<open>
  Modelled from the spec: the target of \<^verbatim>\<open>hasError\<close> and \<^verbatim>\<open>getError\<close> of the missing
  \<^verbatim>\<open>AbstractControl\<close>: ``if \<^verbatim>\<open>path\<close> is given, resolves it via
  \<^verbatim>\<open>control.findDescendant(path)\<close> starting from the bound control; if \<^verbatim>\<open>path\<close> is
  absent, the target is the bound control itself''.
\<close>

definition target :: "store \<Rightarrow> ref \<Rightarrow> string list option \<Rightarrow> ref option" where
  "target h r path = (case path of None \<Rightarrow> Some r | Some p \<Rightarrow> findDescendant h r p)"

text \<open>
  Modelled from the spec: the test of the missing \<^verbatim>\<open>AbstractControl.hasError\<close>, that
  the control's ``\<^verbatim>\<open>errors\<close> mapping contains \<^verbatim>\<open>code\<close>''; \<^verbatim>\<open>errors\<close> may be absent.
\<close>

definition contains_code :: "node \<Rightarrow> string \<Rightarrow> bool" where
  "contains_code c code = (case ctl_errors c of None \<Rightarrow> False | Some e \<Rightarrow> e code \<noteq> None)"

text \<open>
  Modelled from the spec: \<^verbatim>\<open>hasError\<close> of the missing \<^verbatim>\<open>AbstractControl\<close> ``returns
  \<^verbatim>\<open>true\<close> iff the target resolves to a present control whose \<^verbatim>\<open>errors\<close> mapping
  contains \<^verbatim>\<open>code\<close>'', and \<^verbatim>\<open>false\<close> ``if the path fails to resolve, or if the code
  is absent from errors''; it reads the store only.
\<close>

definition ctl_hasError ::
  "ref \<Rightarrow> string \<Rightarrow> string list option \<Rightarrow> store \<Rightarrow> js_error + (bool \<times> store)" where
  "ctl_hasError r code path h =
     Inr ((case target h r path of None \<Rightarrow> False | Some t \<Rightarrow> contains_code (h t) code), h)"

text \<open>
  Modelled from the spec: the value that the missing \<^verbatim>\<open>AbstractControl.getError\<close>
  returns for a resolved target, ``the error-detail value associated with \<^verbatim>\<open>code\<close> in
  the resolved target's \<^verbatim>\<open>errors\<close> mapping, or \<^verbatim>\<open>null\<close>'' when the code is not
  present.
\<close>

definition error_detail :: "node \<Rightarrow> string \<Rightarrow> jsval" where
  "error_detail c code =
     (case ctl_errors c of
        None \<Rightarrow> JNull
      | Some e \<Rightarrow> (case e code of None \<Rightarrow> JNull | Some v \<Rightarrow> v))"

text \<open>
  Modelled from the spec: \<^verbatim>\<open>getError\<close> of the missing \<^verbatim>\<open>AbstractControl\<close>: ``same
  resolution as \<^verbatim>\<open>hasError\<close>; returns the error-detail value associated with
  \<^verbatim>\<open>code\<close> in the resolved target's \<^verbatim>\<open>errors\<close> mapping, or \<^verbatim>\<open>null\<close>/absent if
  unresolved, unbound, or code not present''; it reads the store only.
\<close>

definition ctl_getError ::
  "ref \<Rightarrow> string \<Rightarrow> string list option \<Rightarrow> store \<Rightarrow> js_error + (jsval \<times> store)" where
  "ctl_getError r code path h =
     Inr ((case target h r path of None \<Rightarrow> JNull | Some t \<Rightarrow> error_detail (h t) code), h)"

text \<open>
  Modelled from the spec: what \<^verbatim>\<open>reset\<close> of the missing \<^verbatim>\<open>AbstractControl\<close> does to
  the control's own state: it ``sets
  \<^verbatim>\<open>value\<close> (to a supplied value or an absence-default), marks \<^verbatim>\<open>pristine\<close> and
  \<^verbatim>\<open>untouched\<close>, and re-derives \<^verbatim>\<open>status\<close> from validators''. The control's
  absence-default \<open>dflt\<close> and its validators (from the new value to a status and the
  errors) are parameters; the boolean views follow the status as the spec's data model
  says.
\<close>

definition reset_ctl ::
  "jsval \<Rightarrow> (jsval \<Rightarrow> string \<times> validation_errors option) \<Rightarrow> jsval \<Rightarrow> node \<Rightarrow> node" where
  "reset_ctl dflt validators v c =
     (let nv = (if v = JUndefined then dflt else v);
          st = fst (validators nv)
      in c\<lparr>ctl_value := nv,
           ctl_valid := (st = ''VALID''),
           ctl_invalid := (st = ''INVALID''),
           ctl_pending := (st = ''PENDING''),
           ctl_disabled := (st = ''DISABLED''),
           ctl_enabled := (st \<noteq> ''DISABLED''),
           ctl_errors := snd (validators nv),
           ctl_pristine := True,
           ctl_dirty := False,
           ctl_touched := False,
           ctl_status := st,
           ctl_untouched := True\<rparr>)"

text \<open>
  Modelled from the spec: \<^verbatim>\<open>reset(value)\<close> of the missing \<^verbatim>\<open>AbstractControl\<close> as a
  method on the store: it changes the receiver as above, returns nothing and does not
  throw.
\<close>

definition ctl_reset ::
  "jsval \<Rightarrow> (jsval \<Rightarrow> string \<times> validation_errors option) \<Rightarrow>
   ref \<Rightarrow> jsval \<Rightarrow> store \<Rightarrow> js_error + (unit \<times> store)" where
  "ctl_reset dflt validators r v h = Inr ((), h(r := reset_ctl dflt validators v (h r)))"

text \<open>
  Modelled from the spec: the three methods of the missing \<^verbatim>\<open>AbstractControl\<close>
  together.
\<close>

definition spec_control ::
  "jsval \<Rightarrow> (jsval \<Rightarrow> string \<times> validation_errors option) \<Rightarrow> ctl_methods" where
  "spec_control dflt validators =
     \<lparr>m_hasError = ctl_hasError, m_getError = ctl_getError,
      m_reset = ctl_reset dflt validators\<rparr>"

section \<open>Running operations\<close>

text \<open>Whether a call returned, and two calls one after the other.\<close>

definition returns :: "js_error + 'a \<Rightarrow> bool" where
  "returns res = (case res of Inl _ \<Rightarrow> False | Inr _ \<Rightarrow> True)"

definition twice :: "'a js \<Rightarrow> ('a \<times> 'a) js" where
  "twice f w =
     (case f w of
        Inl e \<Rightarrow> Inl e
      | Inr (x, w1) \<Rightarrow>
          (case f w1 of
             Inl e \<Rightarrow> Inl e
           | Inr (y, w2) \<Rightarrow> Inr ((x, y), w2)))"

text \<open>
  What a call returned or threw, without the state; and two states in which
  \<^verbatim>\<open>this.control\<close> yields the same reference to a control in the same state.
\<close>

definition result :: "js_error + ('a \<times> world) \<Rightarrow> js_error + 'a" where
  "result res = (case res of Inl e \<Rightarrow> Inl e | Inr (x, w') \<Rightarrow> Inr x)"

definition same_control :: "world \<Rightarrow> world \<Rightarrow> bool" where
  "same_control w1 w2 =
     (case control w1 of
        None \<Rightarrow> control w2 = None
      | Some r \<Rightarrow> control w2 = Some r \<and> heap w1 r = heap w2 r)"

section \<open>A form to run the operations on\<close>

text \<open>
  A form group (10) with a child group \<open>address\<close> (20) that has a child \<open>zip\<close> (30)
  failing a pattern check, and a leaf control (40) that lacks a required value and was
  edited and visited.
\<close>

definition blank :: node where
  "blank =
     \<lparr>ctl_value = JNull, ctl_valid = True, ctl_invalid = False, ctl_pending = False,
      ctl_disabled = False, ctl_enabled = True, ctl_errors = None, ctl_pristine = True,
      ctl_dirty = False, ctl_touched = False, ctl_status = ''VALID'',
      ctl_untouched = True, ctl_statusChanges = 0, ctl_valueChanges = 0,
      ctl_children = Map.empty\<rparr>"

definition invalid_ctl :: "jsval \<Rightarrow> validation_errors \<Rightarrow> stream_ref \<Rightarrow> stream_ref \<Rightarrow> node" where
  "invalid_ctl v e sc vc =
     blank\<lparr>ctl_value := v, ctl_valid := False, ctl_invalid := True, ctl_errors := Some e,
           ctl_status := ''INVALID'', ctl_statusChanges := sc, ctl_valueChanges := vc\<rparr>"

definition zip_ctl :: node where
  "zip_ctl =
     invalid_ctl (JStr ''12'')
       [''pattern'' \<mapsto> JObj [(''requiredPattern'', JStr ''[0-9]{5}'')]] 31 32"

definition address_ctl :: node where
  "address_ctl =
     (invalid_ctl (JObj [(''zip'', JStr ''12'')]) Map.empty 21 22)
       \<lparr>ctl_errors := None, ctl_children := [''zip'' \<mapsto> 30]\<rparr>"

definition form_ctl :: node where
  "form_ctl =
     (invalid_ctl (JObj [(''address'', JObj [(''zip'', JStr ''12'')])]) Map.empty 11 12)
       \<lparr>ctl_errors := None, ctl_children := [''address'' \<mapsto> 20]\<rparr>"

definition name_ctl :: node where
  "name_ctl =
     (invalid_ctl (JStr []) [''required'' \<mapsto> JBool True] 41 42)
       \<lparr>ctl_pristine := False, ctl_dirty := True, ctl_touched := True,
        ctl_untouched := False\<rparr>"

definition form_store :: store where
  "form_store = (\<lambda>_. blank)(10 := form_ctl, 20 := address_ctl, 30 := zip_ctl, 40 := name_ctl)"

definition w_unbound :: world where
  "w_unbound = \<lparr>control = None, heap = form_store\<rparr>"

definition w_form :: world where
  "w_form = \<lparr>control = Some 10, heap = form_store\<rparr>"

definition w_name :: world where
  "w_name = \<lparr>control = Some 40, heap = form_store\<rparr>"

definition w_form' :: world where
  "w_form' = \<lparr>control = Some 10, heap = form_store(30 := blank, 40 := blank)\<rparr>"

definition no_validators :: "jsval \<Rightarrow> string \<times> validation_errors option" where
  "no_validators v = (''VALID'', None)"

definition M0 :: ctl_methods where
  "M0 = spec_control JNull no_validators"

text \<open>
  A control whose own \<^verbatim>\<open>reset\<close> throws a \<^verbatim>\<open>TypeError\<close> when it is handed \<^verbatim>\<open>null\<close>, as a
  \<^verbatim>\<open>reset\<close> that reads a member of its argument does, and that otherwise behaves like
  the control above. The directive takes whatever \<^verbatim>\<open>AbstractControl\<close> its getter
  yields; what that control's \<^verbatim>\<open>reset\<close> does is the control's own.
\<close>

definition throwing_control :: ctl_methods where
  "throwing_control =
     \<lparr>m_hasError = ctl_hasError, m_getError = ctl_getError,
      m_reset = (\<lambda>r v h. if v = JNull then Inl TypeError
                          else ctl_reset JNull no_validators r v h)\<rparr>"

lemmas getter_defs =
  get_value_def get_valid_def get_invalid_def get_pending_def get_disabled_def
  get_enabled_def get_errors_def get_pristine_def get_dirty_def get_touched_def
  get_status_def get_untouched_def get_statusChanges_def get_valueChanges_def
  get_path_def

section \<open>The base class reports no path\<close>

text \<open>
  C8. The \<^verbatim>\<open>path\<close> getter of the abstract base returns \<^verbatim>\<open>null\<close> whatever the state,
  also when a control is bound, and leaves the state as it was. (What a subclass
  overrides it with is not code of this class.)
\<close>

theorem path_always_null: "get_path w = Inr (None, w)"
  by (simp add: get_path_def ret_def)


section \<open>Unbound: the defaults\<close>

lemma truthy_simps [simp]: "truthy None = False" "truthy (Some r) = True"
  by (simp_all add: truthy_def)

lemma invoke_bound:
  "control w = Some r \<Longrightarrow>
   invoke m w = (case m r (heap w) of Inl e \<Rightarrow> Inl e | Inr (x, h') \<Rightarrow> Inr (x, w\<lparr>heap := h'\<rparr>))"
  by (simp add: invoke_def)

lemma member_bound: "control w = Some r \<Longrightarrow> member f w = Inr (f (heap w r), w)"
  by (simp add: member_def)

text \<open>
  C2. When \<^verbatim>\<open>this.control\<close> is \<^verbatim>\<open>null\<close>, every getter (\<^verbatim>\<open>path\<close> among them) returns
  \<^verbatim>\<open>null\<close>, \<^verbatim>\<open>hasError\<close> returns \<^verbatim>\<open>false\<close> and \<^verbatim>\<open>getError\<close> returns \<^verbatim>\<open>null\<close> for
  every code and path, and \<^verbatim>\<open>reset\<close> returns with the state as it was, whatever the
  argument. None of the calls throws, and none reaches a method of a control.
\<close>

theorem unbound_defaults:
  assumes "control w = None"
  shows "get_value w = Inr (JNull, w) \<and> get_valid w = Inr (None, w) \<and>
         get_invalid w = Inr (None, w) \<and> get_pending w = Inr (None, w) \<and>
         get_disabled w = Inr (None, w) \<and> get_enabled w = Inr (None, w) \<and>
         get_pristine w = Inr (None, w) \<and> get_dirty w = Inr (None, w) \<and>
         get_touched w = Inr (None, w) \<and> get_untouched w = Inr (None, w) \<and>
         get_status w = Inr (None, w) \<and> get_errors w = Inr (None, w) \<and>
         get_statusChanges w = Inr (None, w) \<and> get_valueChanges w = Inr (None, w) \<and>
         get_path w = Inr (None, w) \<and>
         hasError M code path w = Inr (False, w) \<and>
         getError M code path w = Inr (JNull, w) \<and>
         reset M arg w = Inr ((), w)"
  using assms
  by (simp add: getter_defs hasError_def getError_def reset_def ret_def)

theorem unbound_defaults_witness:
  "control w_unbound = None \<and>
   get_value w_unbound = Inr (JNull, w_unbound) \<and>
   get_valid w_unbound = Inr (None, w_unbound) \<and>
   get_path w_unbound = Inr (None, w_unbound) \<and>
   hasError M0 ''anything'' None w_unbound = Inr (False, w_unbound) \<and>
   getError M0 ''pattern'' (Some [''address'', ''zip'']) w_unbound = Inr (JNull, w_unbound) \<and>
   reset M0 None w_unbound = Inr ((), w_unbound)"
proof -
  have unbound: "control w_unbound = None"
    by (simp add: w_unbound_def)
  from unbound_defaults [OF unbound, of M0 "''anything''" None None]
    unbound_defaults [OF unbound, of M0 "''pattern''" "Some [''address'', ''zip'']" None]
  show ?thesis
    using unbound by simp
qed

section \<open>Bound: the control's own members\<close>

text \<open>
  C4. When \<^verbatim>\<open>this.control\<close> is the control at reference \<open>r\<close>, each getter returns
  that control's member of the same name as it is in the store, the two stream getters
  return the references of the control's own streams, and the state stays as it was.
\<close>

theorem bound_projections:
  assumes "control w = Some r"
  shows "get_value w = Inr (ctl_value (heap w r), w) \<and>
         get_status w = Inr (Some (ctl_status (heap w r)), w) \<and>
         get_errors w = Inr (ctl_errors (heap w r), w) \<and>
         get_valid w = Inr (Some (ctl_valid (heap w r)), w) \<and>
         get_invalid w = Inr (Some (ctl_invalid (heap w r)), w) \<and>
         get_pending w = Inr (Some (ctl_pending (heap w r)), w) \<and>
         get_disabled w = Inr (Some (ctl_disabled (heap w r)), w) \<and>
         get_enabled w = Inr (Some (ctl_enabled (heap w r)), w) \<and>
         get_pristine w = Inr (Some (ctl_pristine (heap w r)), w) \<and>
         get_dirty w = Inr (Some (ctl_dirty (heap w r)), w) \<and>
         get_touched w = Inr (Some (ctl_touched (heap w r)), w) \<and>
         get_untouched w = Inr (Some (ctl_untouched (heap w r)), w) \<and>
         get_statusChanges w = Inr (Some (ctl_statusChanges (heap w r)), w) \<and>
         get_valueChanges w = Inr (Some (ctl_valueChanges (heap w r)), w)"
  using assms
  by (simp add: getter_defs member_bound)

theorem bound_projections_witness:
  "control w_name = Some 40 \<and>
   get_value w_name = Inr (JStr [], w_name) \<and>
   get_status w_name = Inr (Some ''INVALID'', w_name) \<and>
   get_errors w_name = Inr (Some [''required'' \<mapsto> JBool True], w_name) \<and>
   get_valid w_name = Inr (Some False, w_name) \<and>
   get_dirty w_name = Inr (Some True, w_name) \<and>
   get_touched w_name = Inr (Some True, w_name) \<and>
   get_statusChanges w_name = Inr (Some 41, w_name) \<and>
   get_valueChanges w_name = Inr (Some 42, w_name)"
proof -
  have bound: "control w_name = Some 40"
    by (simp add: w_name_def)
  have at4: "heap w_name 40 = name_ctl"
    by (simp add: w_name_def form_store_def)
  from bound_projections [OF bound] show ?thesis
    using bound by (simp add: at4 name_ctl_def invalid_ctl_def blank_def)
qed


section \<open>Errors by path, with the control the spec describes\<close>

lemma findDescendant_append:
  "findDescendant h r (p @ q) =
     (case findDescendant h r p of None \<Rightarrow> None | Some t \<Rightarrow> findDescendant h t q)"
  by (induction p arbitrary: r) (simp_all split: option.splits)

lemma findDescendant_missing_segment:
  "findDescendant h r p = Some t \<Longrightarrow> ctl_children (h t) s = None \<Longrightarrow>
   findDescendant h r (p @ s # q) = None"
  by (simp add: findDescendant_append)

lemma hasError_spec:
  "hasError (spec_control d vs) code path w =
     Inr ((case control w of
             None \<Rightarrow> False
           | Some r \<Rightarrow>
               (case target (heap w) r path of
                  None \<Rightarrow> False
                | Some t \<Rightarrow> contains_code (heap w t) code)), w)"
  by (cases "control w")
     (simp_all add: hasError_def invoke_def spec_control_def ctl_hasError_def ret_def)

lemma getError_spec:
  "getError (spec_control d vs) code path w =
     Inr ((case control w of
             None \<Rightarrow> JNull
           | Some r \<Rightarrow>
               (case target (heap w) r path of
                  None \<Rightarrow> JNull
                | Some t \<Rightarrow> error_detail (heap w t) code)), w)"
  by (cases "control w")
     (simp_all add: getError_def invoke_def spec_control_def ctl_getError_def ret_def)

lemma no_code_no_detail: "\<not> contains_code c code \<Longrightarrow> error_detail c code = JNull"
  by (simp add: contains_code_def error_detail_def split: option.splits)

text \<open>
  C1. With the control's \<^verbatim>\<open>hasError\<close> as the spec describes it, the directive's
  \<^verbatim>\<open>hasError(code, path)\<close> returns \<^verbatim>\<open>true\<close> iff a control is bound, the target (the
  bound control when no path is given, else what \<open>findDescendant\<close> resolves the path
  to from the bound control) is present, and the target's \<^verbatim>\<open>errors\<close> contains the
  code; it leaves the state as it was. With no path it tells whether the bound
  control's own \<^verbatim>\<open>errors\<close> contains the code. When some segment of the path names no
  child of the control reached so far, the result is \<^verbatim>\<open>false\<close>.
\<close>

theorem hasError_by_path:
  "hasError (spec_control d vs) code path w =
     Inr ((\<exists>r t. control w = Some r \<and> target (heap w) r path = Some t \<and>
                 contains_code (heap w t) code), w) \<and>
   (control w = Some r \<longrightarrow>
      hasError (spec_control d vs) code None w = Inr (contains_code (heap w r) code, w)) \<and>
   (control w = Some r \<and> findDescendant (heap w) r p = Some t \<and>
    ctl_children (heap w t) s = None \<longrightarrow>
      hasError (spec_control d vs) code (Some (p @ s # q)) w = Inr (False, w))"
proof (intro conjI impI)
  show "hasError (spec_control d vs) code path w =
     Inr ((\<exists>r t. control w = Some r \<and> target (heap w) r path = Some t \<and>
                 contains_code (heap w t) code), w)"
    by (simp add: hasError_spec split: option.splits)
next
  assume "control w = Some r"
  then show "hasError (spec_control d vs) code None w = Inr (contains_code (heap w r) code, w)"
    by (simp add: hasError_spec target_def)
next
  assume "control w = Some r \<and> findDescendant (heap w) r p = Some t \<and>
    ctl_children (heap w t) s = None"
  then show "hasError (spec_control d vs) code (Some (p @ s # q)) w = Inr (False, w)"
    by (simp add: hasError_spec target_def findDescendant_missing_segment)
qed

lemma form_paths:
  "findDescendant form_store 10 [''address'', ''zip''] = Some 30"
  "findDescendant form_store 10 [''address''] = Some 20"
  "findDescendant form_store 10 [''address'', ''unit''] = None"
  "ctl_children (form_store 10) ''address'' = Some 20"
  "ctl_children (form_store 20) ''zip'' = Some 30"
  "ctl_children (form_store 20) ''unit'' = None"
  "ctl_errors (form_store 10) = None"
  "ctl_errors (form_store 30) =
     Some [''pattern'' \<mapsto> JObj [(''requiredPattern'', JStr ''[0-9]{5}'')]]"
  by (simp_all add: form_store_def form_ctl_def address_ctl_def zip_ctl_def invalid_ctl_def
      blank_def)

theorem hasError_by_path_witness:
  "control w_form = Some 10 \<and>
   findDescendant (heap w_form) 10 [''address''] = Some 20 \<and>
   ctl_children (heap w_form 20) ''unit'' = None \<and>
   hasError M0 ''pattern'' (Some [''address'', ''unit'']) w_form = Inr (False, w_form) \<and>
   hasError M0 ''pattern'' (Some [''address'', ''zip'']) w_form = Inr (True, w_form) \<and>
   hasError M0 ''pattern'' None w_form = Inr (False, w_form)"
proof -
  have pre: "control w_form = Some 10 \<and> findDescendant (heap w_form) 10 [''address''] = Some 20 \<and>
      ctl_children (heap w_form 20) ''unit'' = None"
    by (simp add: w_form_def form_paths)
  have zip: "contains_code (form_store 30) ''pattern''"
    by (simp add: contains_code_def form_paths)
  have form: "\<not> contains_code (form_store 10) ''pattern''"
    by (simp add: contains_code_def form_paths)
  from hasError_by_path [of JNull no_validators "''pattern''" "Some [''address'', ''zip'']"
      w_form 10 "[''address'']" 20 "''unit''" "[]"]
  have "hasError M0 ''pattern'' (Some [''address'', ''unit'']) w_form = Inr (False, w_form)"
    and "hasError M0 ''pattern'' (Some [''address'', ''zip'']) w_form = Inr (True, w_form)"
    and "hasError M0 ''pattern'' None w_form = Inr (False, w_form)"
    using pre zip form by (simp_all add: M0_def w_form_def target_def form_paths)
  with pre show ?thesis by simp
qed

text \<open>
  C3. With the control's \<^verbatim>\<open>getError\<close> as the spec describes it, the directive's
  \<^verbatim>\<open>getError(code, path)\<close> resolves its target as \<^verbatim>\<open>hasError\<close> does and returns the
  value that the target's \<^verbatim>\<open>errors\<close> holds for the code; it returns \<^verbatim>\<open>null\<close> when no
  control is bound, when the path does not resolve and when the code is not in the
  target's \<^verbatim>\<open>errors\<close>, and so whenever \<^verbatim>\<open>hasError\<close> returns \<^verbatim>\<open>false\<close> for the same
  arguments.
\<close>

theorem getError_by_path:
  "getError (spec_control d vs) code path w =
     Inr ((case control w of
             None \<Rightarrow> JNull
           | Some r \<Rightarrow>
               (case target (heap w) r path of
                  None \<Rightarrow> JNull
                | Some t \<Rightarrow> error_detail (heap w t) code)), w) \<and>
   (control w = Some r \<and> target (heap w) r path = Some t \<and>
    ctl_errors (heap w t) = Some e \<and> e code = Some v \<longrightarrow>
      getError (spec_control d vs) code path w = Inr (v, w)) \<and>
   (hasError (spec_control d vs) code path w = Inr (False, w) \<longrightarrow>
      getError (spec_control d vs) code path w = Inr (JNull, w))"
proof (intro conjI impI)
  show "getError (spec_control d vs) code path w =
     Inr ((case control w of
             None \<Rightarrow> JNull
           | Some r \<Rightarrow>
               (case target (heap w) r path of
                  None \<Rightarrow> JNull
                | Some t \<Rightarrow> error_detail (heap w t) code)), w)"
    by (rule getError_spec)
next
  assume "control w = Some r \<and> target (heap w) r path = Some t \<and>
    ctl_errors (heap w t) = Some e \<and> e code = Some v"
  then show "getError (spec_control d vs) code path w = Inr (v, w)"
    by (simp add: getError_spec error_detail_def)
next
  assume "hasError (spec_control d vs) code path w = Inr (False, w)"
  then show "getError (spec_control d vs) code path w = Inr (JNull, w)"
    by (simp add: hasError_spec getError_spec no_code_no_detail split: option.splits)
qed

theorem getError_by_path_witness:
  "control w_form = Some 10 \<and>
   target (heap w_form) 10 (Some [''address'', ''zip'']) = Some 30 \<and>
   ctl_errors (heap w_form 30) =
     Some [''pattern'' \<mapsto> JObj [(''requiredPattern'', JStr ''[0-9]{5}'')]] \<and>
   getError M0 ''pattern'' (Some [''address'', ''zip'']) w_form =
     Inr (JObj [(''requiredPattern'', JStr ''[0-9]{5}'')], w_form) \<and>
   hasError M0 ''pattern'' (Some [''address'', ''unit'']) w_form = Inr (False, w_form) \<and>
   getError M0 ''pattern'' (Some [''address'', ''unit'']) w_form = Inr (JNull, w_form)"
proof -
  have pre: "control w_form = Some 10 \<and>
      target (heap w_form) 10 (Some [''address'', ''zip'']) = Some 30 \<and>
      ctl_errors (heap w_form 30) =
        Some [''pattern'' \<mapsto> JObj [(''requiredPattern'', JStr ''[0-9]{5}'')]]"
    by (simp add: w_form_def target_def form_paths)
  have unit: "hasError M0 ''pattern'' (Some [''address'', ''unit'']) w_form = Inr (False, w_form)"
    by (simp add: M0_def hasError_spec w_form_def target_def form_paths)
  have zip: "getError M0 ''pattern'' (Some [''address'', ''zip'']) w_form =
       Inr (JObj [(''requiredPattern'', JStr ''[0-9]{5}'')], w_form)"
    using pre
      getError_by_path [of JNull no_validators "''pattern''" "Some [''address'', ''zip'']"
        w_form 10 30 "[''pattern'' \<mapsto> JObj [(''requiredPattern'', JStr ''[0-9]{5}'')]]"
        "JObj [(''requiredPattern'', JStr ''[0-9]{5}'')]", THEN conjunct2, THEN conjunct1]
    by (simp add: M0_def)
  have "getError M0 ''pattern'' (Some [''address'', ''unit'']) w_form = Inr (JNull, w_form)"
    using unit
      getError_by_path [of JNull no_validators "''pattern''" "Some [''address'', ''unit'']"
        w_form, THEN conjunct2, THEN conjunct2]
    by (simp add: M0_def)
  with pre unit zip show ?thesis by simp
qed

text \<open>
  C5. With the control's \<^verbatim>\<open>hasError\<close> and \<^verbatim>\<open>getError\<close> as the spec describes them,
  an empty path gives the same result as no path: both look at the bound control's own
  \<^verbatim>\<open>errors\<close>, and both give the default when no control is bound.
\<close>

theorem empty_path_is_no_path:
  "hasError (spec_control d vs) code (Some []) w = hasError (spec_control d vs) code None w \<and>
   getError (spec_control d vs) code (Some []) w = getError (spec_control d vs) code None w \<and>
   hasError (spec_control d vs) code (Some []) w =
     Inr ((case control w of None \<Rightarrow> False | Some r \<Rightarrow> contains_code (heap w r) code), w) \<and>
   getError (spec_control d vs) code (Some []) w =
     Inr ((case control w of None \<Rightarrow> JNull | Some r \<Rightarrow> error_detail (heap w r) code), w)"
  by (simp add: hasError_spec getError_spec target_def split: option.splits)


section \<open>Nothing is thrown by the directive itself\<close>

lemma returns_invoke: "control w = Some r \<Longrightarrow> returns (invoke m w) = returns (m r (heap w))"
  by (simp add: invoke_def returns_def split: sum.splits prod.splits)

lemma getters_return:
  "returns (get_value w) \<and> returns (get_valid w) \<and> returns (get_invalid w) \<and>
   returns (get_pending w) \<and> returns (get_disabled w) \<and> returns (get_enabled w) \<and>
   returns (get_errors w) \<and> returns (get_pristine w) \<and> returns (get_dirty w) \<and>
   returns (get_touched w) \<and> returns (get_status w) \<and> returns (get_untouched w) \<and>
   returns (get_statusChanges w) \<and> returns (get_valueChanges w) \<and> returns (get_path w)"
  by (cases "control w") (simp_all add: getter_defs member_def ret_def returns_def)

lemma unbound_methods:
  "control w = None \<Longrightarrow>
   hasError M code path w = Inr (False, w) \<and> getError M code path w = Inr (JNull, w) \<and>
   reset M arg w = Inr ((), w)"
  by (simp add: hasError_def getError_def reset_def ret_def)

lemma bound_methods:
  assumes "control w = Some r"
  shows "hasError M code path w =
           (case m_hasError M r code path (heap w) of
              Inl e \<Rightarrow> Inl e
            | Inr (x, h') \<Rightarrow> Inr (x, w\<lparr>heap := h'\<rparr>))"
    and "getError M code path w =
           (case m_getError M r code path (heap w) of
              Inl e \<Rightarrow> Inl e
            | Inr (x, h') \<Rightarrow> Inr (x, w\<lparr>heap := h'\<rparr>))"
    and "reset M arg w =
           (case m_reset M r (default_param JUndefined arg) (heap w) of
              Inl e \<Rightarrow> Inl e
            | Inr (u, h') \<Rightarrow> Inr (u, w\<lparr>heap := h'\<rparr>))"
  using assms by (simp_all add: hasError_def getError_def reset_def invoke_bound)

lemma bound_methods_return:
  assumes "control w = Some r"
  shows "returns (hasError M code path w) = returns (m_hasError M r code path (heap w))"
    and "returns (getError M code path w) = returns (m_getError M r code path (heap w))"
    and "returns (reset M arg w) =
           returns (m_reset M r (default_param JUndefined arg) (heap w))"
  using assms by (simp_all add: hasError_def getError_def reset_def returns_invoke)

lemma unresolved_path_defaults:
  assumes "control w = Some r" and "target (heap w) r path = None"
  shows "hasError (spec_control d vs) code path w = Inr (False, w)"
    and "getError (spec_control d vs) code path w = Inr (JNull, w)"
  using assms by (simp_all add: hasError_spec getError_spec)

text \<open>
  C6, as the code has it. The directive throws nothing of its own, in either state and
  for every argument: every read of a member and every method call on
  \<^verbatim>\<open>this.control\<close> is behind the test for \<^verbatim>\<open>null\<close>. Every getter returns. With no
  control bound, \<^verbatim>\<open>hasError\<close> returns \<^verbatim>\<open>false\<close>, \<^verbatim>\<open>getError\<close> returns \<^verbatim>\<open>null\<close> and
  \<^verbatim>\<open>reset\<close> returns with nothing done. With a control bound, each of the three does
  exactly what the control's own method of that name does with the same arguments: it
  returns when that method returns, with its result, and throws what that method throws,
  since the directive has no handler. For a path that does not resolve, \<^verbatim>\<open>hasError\<close>
  and \<^verbatim>\<open>getError\<close> of the control as the spec describes it return \<^verbatim>\<open>false\<close> and
  \<^verbatim>\<open>null\<close>, and so do the directive's.
\<close>

theorem directive_throws_nothing_itself:
  "returns (get_value w) \<and> returns (get_valid w) \<and> returns (get_invalid w) \<and>
   returns (get_pending w) \<and> returns (get_disabled w) \<and> returns (get_enabled w) \<and>
   returns (get_errors w) \<and> returns (get_pristine w) \<and> returns (get_dirty w) \<and>
   returns (get_touched w) \<and> returns (get_status w) \<and> returns (get_untouched w) \<and>
   returns (get_statusChanges w) \<and> returns (get_valueChanges w) \<and>
   returns (get_path w) \<and>
   (control w = None \<longrightarrow>
      hasError M code path w = Inr (False, w) \<and>
      getError M code path w = Inr (JNull, w) \<and>
      reset M arg w = Inr ((), w)) \<and>
   (control w = Some r \<longrightarrow>
      hasError M code path w =
        (case m_hasError M r code path (heap w) of
           Inl e \<Rightarrow> Inl e
         | Inr (x, h') \<Rightarrow> Inr (x, w\<lparr>heap := h'\<rparr>)) \<and>
      getError M code path w =
        (case m_getError M r code path (heap w) of
           Inl e \<Rightarrow> Inl e
         | Inr (x, h') \<Rightarrow> Inr (x, w\<lparr>heap := h'\<rparr>)) \<and>
      reset M arg w =
        (case m_reset M r (default_param JUndefined arg) (heap w) of
           Inl e \<Rightarrow> Inl e
         | Inr (u, h') \<Rightarrow> Inr (u, w\<lparr>heap := h'\<rparr>)) \<and>
      returns (hasError M code path w) = returns (m_hasError M r code path (heap w)) \<and>
      returns (getError M code path w) = returns (m_getError M r code path (heap w)) \<and>
      returns (reset M arg w) =
        returns (m_reset M r (default_param JUndefined arg) (heap w))) \<and>
   (control w = Some r \<and> target (heap w) r path = None \<longrightarrow>
      hasError (spec_control d vs) code path w = Inr (False, w) \<and>
      getError (spec_control d vs) code path w = Inr (JNull, w))"
proof -
  have unbound: "control w = None \<longrightarrow>
      hasError M code path w = Inr (False, w) \<and>
      getError M code path w = Inr (JNull, w) \<and>
      reset M arg w = Inr ((), w)"
    by (rule impI) (rule unbound_methods)
  have bound: "control w = Some r \<longrightarrow>
      hasError M code path w =
        (case m_hasError M r code path (heap w) of
           Inl e \<Rightarrow> Inl e
         | Inr (x, h') \<Rightarrow> Inr (x, w\<lparr>heap := h'\<rparr>)) \<and>
      getError M code path w =
        (case m_getError M r code path (heap w) of
           Inl e \<Rightarrow> Inl e
         | Inr (x, h') \<Rightarrow> Inr (x, w\<lparr>heap := h'\<rparr>)) \<and>
      reset M arg w =
        (case m_reset M r (default_param JUndefined arg) (heap w) of
           Inl e \<Rightarrow> Inl e
         | Inr (u, h') \<Rightarrow> Inr (u, w\<lparr>heap := h'\<rparr>)) \<and>
      returns (hasError M code path w) = returns (m_hasError M r code path (heap w)) \<and>
      returns (getError M code path w) = returns (m_getError M r code path (heap w)) \<and>
      returns (reset M arg w) =
        returns (m_reset M r (default_param JUndefined arg) (heap w))"
  proof
    assume r: "control w = Some r"
    show "hasError M code path w =
        (case m_hasError M r code path (heap w) of
           Inl e \<Rightarrow> Inl e
         | Inr (x, h') \<Rightarrow> Inr (x, w\<lparr>heap := h'\<rparr>)) \<and>
      getError M code path w =
        (case m_getError M r code path (heap w) of
           Inl e \<Rightarrow> Inl e
         | Inr (x, h') \<Rightarrow> Inr (x, w\<lparr>heap := h'\<rparr>)) \<and>
      reset M arg w =
        (case m_reset M r (default_param JUndefined arg) (heap w) of
           Inl e \<Rightarrow> Inl e
         | Inr (u, h') \<Rightarrow> Inr (u, w\<lparr>heap := h'\<rparr>)) \<and>
      returns (hasError M code path w) = returns (m_hasError M r code path (heap w)) \<and>
      returns (getError M code path w) = returns (m_getError M r code path (heap w)) \<and>
      returns (reset M arg w) =
        returns (m_reset M r (default_param JUndefined arg) (heap w))"
      by (intro conjI) (rule bound_methods [OF r] bound_methods_return [OF r])+
  qed
  have unresolved: "control w = Some r \<and> target (heap w) r path = None \<longrightarrow>
      hasError (spec_control d vs) code path w = Inr (False, w) \<and>
      getError (spec_control d vs) code path w = Inr (JNull, w)"
    by (auto simp: unresolved_path_defaults)
  show ?thesis
    apply (insert getters_return [of w] unbound bound unresolved)
    apply (elim conjE)
    apply (intro conjI; assumption)
    done
qed

text \<open>
  The theorem at work: a bound form asked for an error under a path with a segment that
  names no child, the same questions with no control bound, and a \<^verbatim>\<open>reset(null)\<close> on a
  control whose own \<^verbatim>\<open>reset\<close> throws.
\<close>

theorem directive_throws_nothing_itself_witness:
  "control w_form = Some 10 \<and>
   target (heap w_form) 10 (Some [''address'', ''unit'']) = None \<and>
   returns (get_value w_form) \<and> returns (get_errors w_form) \<and>
   hasError M0 ''pattern'' (Some [''address'', ''unit'']) w_form = Inr (False, w_form) \<and>
   getError M0 ''pattern'' (Some [''address'', ''unit'']) w_form = Inr (JNull, w_form) \<and>
   returns (reset M0 (Some JNull) w_form) \<and>
   reset throwing_control (Some JNull) w_form = Inl TypeError \<and>
   control w_unbound = None \<and>
   returns (get_value w_unbound) \<and>
   hasError throwing_control ''anything'' None w_unbound = Inr (False, w_unbound) \<and>
   getError throwing_control ''anything'' None w_unbound = Inr (JNull, w_unbound) \<and>
   reset throwing_control (Some JNull) w_unbound = Inr ((), w_unbound)"
proof -
  have bound: "control w_form = Some 10"
    by (simp add: w_form_def)
  have unresolved: "target (heap w_form) 10 (Some [''address'', ''unit'']) = None"
    by (simp add: w_form_def target_def form_paths)
  have unbound: "control w_unbound = None"
    by (simp add: w_unbound_def)
  note at_form =
    directive_throws_nothing_itself [of w_form _ "''pattern''" "Some [''address'', ''unit'']"
      "Some JNull" 10 JNull no_validators]
  have getters: "returns (get_value w_form) \<and> returns (get_errors w_form)"
    using at_form [of M0] by blast
  have path: "hasError M0 ''pattern'' (Some [''address'', ''unit'']) w_form = Inr (False, w_form) \<and>
      getError M0 ''pattern'' (Some [''address'', ''unit'']) w_form = Inr (JNull, w_form)"
    using at_form [of M0] bound unresolved unfolding M0_def by blast
  have "returns (reset M0 (Some JNull) w_form) =
      returns (m_reset M0 10 (default_param JUndefined (Some JNull)) (heap w_form))"
    using at_form [of M0] bound by blast
  then have ok: "returns (reset M0 (Some JNull) w_form)"
    by (simp add: M0_def spec_control_def ctl_reset_def returns_def)
  have "reset throwing_control (Some JNull) w_form =
      (case m_reset throwing_control 10 (default_param JUndefined (Some JNull)) (heap w_form) of
         Inl e \<Rightarrow> Inl e
       | Inr (u, h') \<Rightarrow> Inr (u, w_form\<lparr>heap := h'\<rparr>))"
    using at_form [of throwing_control] bound by blast
  then have thrown: "reset throwing_control (Some JNull) w_form = Inl TypeError"
    by (simp add: throwing_control_def default_param_def)
  note at_unbound =
    directive_throws_nothing_itself [of w_unbound throwing_control "''anything''" None
      "Some JNull" 10 JNull no_validators]
  have getter': "returns (get_value w_unbound)"
    using at_unbound by (elim conjE)
  have defaults: "hasError throwing_control ''anything'' None w_unbound = Inr (False, w_unbound) \<and>
      getError throwing_control ''anything'' None w_unbound = Inr (JNull, w_unbound) \<and>
      reset throwing_control (Some JNull) w_unbound = Inr ((), w_unbound)"
    using at_unbound unbound by blast
  show ?thesis
    apply (insert bound unresolved getters path ok thrown unbound getter' defaults)
    apply (elim conjE)
    apply (intro conjI; assumption)
    done
qed

text \<open>
  Against C6 as first put (every call completes without throwing, for every state and
  every argument): the form is bound to a control whose own \<^verbatim>\<open>reset\<close> throws on
  \<^verbatim>\<open>null\<close>; the directive's \<^verbatim>\<open>reset(null)\<close> does not return, it throws that
  \<^verbatim>\<open>TypeError\<close>.
\<close>

theorem reset_throw_passes_through:
  "control w_form = Some 10 \<and>
   m_reset throwing_control 10 JNull (heap w_form) = Inl TypeError \<and>
   reset throwing_control (Some JNull) w_form = Inl TypeError \<and>
   \<not> returns (reset throwing_control (Some JNull) w_form)"
  by (simp add: reset_def default_param_def invoke_def throwing_control_def w_form_def
      returns_def)

section \<open>Reset\<close>

text \<open>
  C7. When a control is bound, \<^verbatim>\<open>reset(v)\<close> is the call \<^verbatim>\<open>control.reset(v)\<close> on it and
  nothing else: it throws what that call throws, and otherwise returns nothing and
  leaves the store as that call left it. What \<^verbatim>\<open>this.control\<close> yields is the same
  after the call as before. This holds for every implementation of the control's
  \<^verbatim>\<open>reset\<close>.
\<close>

theorem reset_delegates:
  assumes "control w = Some r"
  shows "reset M (Some v) w =
           (case m_reset M r v (heap w) of
              Inl e \<Rightarrow> Inl e
            | Inr (u, h') \<Rightarrow> Inr ((), w\<lparr>heap := h'\<rparr>)) \<and>
         (\<forall>u w'. reset M (Some v) w = Inr (u, w') \<longrightarrow>
            control w' = control w \<and> m_reset M r v (heap w) = Inr ((), heap w'))"
proof -
  have arg: "default_param JUndefined (Some v) = v"
    by (simp add: default_param_def)
  have call: "reset M (Some v) w =
           (case m_reset M r v (heap w) of
              Inl e \<Rightarrow> Inl e
            | Inr (u, h') \<Rightarrow> Inr ((), w\<lparr>heap := h'\<rparr>))"
    using assms by (simp add: reset_def arg invoke_bound split: sum.splits)
  have "control w' = control w \<and> m_reset M r v (heap w) = Inr ((), heap w')"
    if "reset M (Some v) w = Inr (u, w')" for u w'
    using that unfolding call by (auto split: sum.splits)
  with call show ?thesis by blast
qed

lemma reset_name_ctl:
  "reset_ctl JNull no_validators (JStr ''Ada'') name_ctl =
     name_ctl\<lparr>ctl_value := JStr ''Ada'', ctl_valid := True, ctl_invalid := False,
              ctl_errors := None, ctl_pristine := True, ctl_dirty := False,
              ctl_touched := False, ctl_status := ''VALID'', ctl_untouched := True\<rparr>"
  by (simp add: reset_ctl_def Let_def no_validators_def name_ctl_def invalid_ctl_def blank_def)

theorem reset_delegates_witness:
  "control w_name = Some 40 \<and>
   reset M0 (Some (JStr ''Ada'')) w_name =
     Inr ((), w_name\<lparr>heap := form_store
       (40 := name_ctl\<lparr>ctl_value := JStr ''Ada'', ctl_valid := True, ctl_invalid := False,
                       ctl_errors := None, ctl_pristine := True, ctl_dirty := False,
                       ctl_touched := False, ctl_status := ''VALID'',
                       ctl_untouched := True\<rparr>)\<rparr>)"
proof -
  have bound: "control w_name = Some 40"
    by (simp add: w_name_def)
  have at40: "heap w_name = form_store" "form_store 40 = name_ctl"
    by (simp_all add: w_name_def form_store_def)
  from reset_delegates [OF bound, of M0 "JStr ''Ada''", THEN conjunct1]
  have "reset M0 (Some (JStr ''Ada'')) w_name =
     Inr ((), w_name\<lparr>heap := form_store
       (40 := reset_ctl JNull no_validators (JStr ''Ada'') name_ctl)\<rparr>)"
    by (simp add: M0_def spec_control_def ctl_reset_def at40)
  with bound show ?thesis
    by (simp only: reset_name_ctl simp_thms)
qed

text \<open>
  C10. \<^verbatim>\<open>reset()\<close> and \<^verbatim>\<open>reset(undefined)\<close> are the same call: in both the parameter
  is \<^verbatim>\<open>undefined\<close>, and a bound control's \<^verbatim>\<open>reset\<close> is called with \<^verbatim>\<open>undefined\<close>.
  \<^verbatim>\<open>reset(null)\<close> calls it with \<^verbatim>\<open>null\<close>, a different value, so that there are
  controls for which \<^verbatim>\<open>reset(null)\<close> and \<^verbatim>\<open>reset()\<close> end differently.
\<close>

theorem reset_default_undefined:
  "reset M None w = reset M (Some JUndefined) w \<and>
   JUndefined \<noteq> JNull \<and>
   (control w = Some r \<longrightarrow>
      reset M None w =
        (case m_reset M r JUndefined (heap w) of
           Inl e \<Rightarrow> Inl e
         | Inr (u, h') \<Rightarrow> Inr ((), w\<lparr>heap := h'\<rparr>)) \<and>
      reset M (Some JNull) w =
        (case m_reset M r JNull (heap w) of
           Inl e \<Rightarrow> Inl e
         | Inr (u, h') \<Rightarrow> Inr ((), w\<lparr>heap := h'\<rparr>)) \<and>
      (\<exists>M'. reset M' (Some JNull) w \<noteq> reset M' None w))"
proof (intro conjI impI)
  show "reset M None w = reset M (Some JUndefined) w"
    by (simp add: reset_def default_param_def)
  show "JUndefined \<noteq> JNull"
    by simp
next
  assume bound: "control w = Some r"
  then show "reset M None w =
        (case m_reset M r JUndefined (heap w) of
           Inl e \<Rightarrow> Inl e
         | Inr (u, h') \<Rightarrow> Inr ((), w\<lparr>heap := h'\<rparr>))"
    by (simp add: reset_def default_param_def invoke_bound split: sum.splits)
  from bound show "reset M (Some JNull) w =
        (case m_reset M r JNull (heap w) of
           Inl e \<Rightarrow> Inl e
         | Inr (u, h') \<Rightarrow> Inr ((), w\<lparr>heap := h'\<rparr>))"
    by (simp add: reset_def default_param_def invoke_bound split: sum.splits)
  let ?M = "spec_control (JStr ''none'') no_validators"
  have null: "reset ?M (Some JNull) w =
      Inr ((), w\<lparr>heap := (heap w)(r := reset_ctl (JStr ''none'') no_validators JNull (heap w r))\<rparr>)"
    using bound
    by (simp add: reset_def default_param_def invoke_bound spec_control_def ctl_reset_def)
  have undef: "reset ?M None w =
      Inr ((), w\<lparr>heap := (heap w)(r := reset_ctl (JStr ''none'') no_validators JUndefined (heap w r))\<rparr>)"
    using bound
    by (simp add: reset_def default_param_def invoke_bound spec_control_def ctl_reset_def)
  have "reset ?M (Some JNull) w \<noteq> reset ?M None w"
  proof
    assume "reset ?M (Some JNull) w = reset ?M None w"
    then have "heap (w\<lparr>heap := (heap w)(r := reset_ctl (JStr ''none'') no_validators JNull (heap w r))\<rparr>) r =
        heap (w\<lparr>heap := (heap w)(r := reset_ctl (JStr ''none'') no_validators JUndefined (heap w r))\<rparr>) r"
      unfolding null undef by simp
    then have "ctl_value (reset_ctl (JStr ''none'') no_validators JNull (heap w r)) =
        ctl_value (reset_ctl (JStr ''none'') no_validators JUndefined (heap w r))"
      by simp
    then show False
      by (simp add: reset_ctl_def Let_def)
  qed
  then show "\<exists>M'. reset M' (Some JNull) w \<noteq> reset M' None w" ..
qed

theorem reset_default_undefined_witness:
  "control w_name = Some 40 \<and>
   reset (spec_control (JStr ''none'') no_validators) None w_name =
     reset (spec_control (JStr ''none'') no_validators) (Some JUndefined) w_name \<and>
   reset (spec_control (JStr ''none'') no_validators) None w_name =
     Inr ((), w_name\<lparr>heap := form_store
       (40 := reset_ctl (JStr ''none'') no_validators JUndefined name_ctl)\<rparr>) \<and>
   reset (spec_control (JStr ''none'') no_validators) (Some JNull) w_name =
     Inr ((), w_name\<lparr>heap := form_store
       (40 := reset_ctl (JStr ''none'') no_validators JNull name_ctl)\<rparr>) \<and>
   ctl_value (reset_ctl (JStr ''none'') no_validators JUndefined name_ctl) = JStr ''none'' \<and>
   ctl_value (reset_ctl (JStr ''none'') no_validators JNull name_ctl) = JNull"
proof -
  have bound: "control w_name = Some 40"
    by (simp add: w_name_def)
  have at40: "heap w_name = form_store" "form_store 40 = name_ctl"
    by (simp_all add: w_name_def form_store_def)
  have vals: "ctl_value (reset_ctl (JStr ''none'') no_validators JUndefined name_ctl) = JStr ''none''"
    "ctl_value (reset_ctl (JStr ''none'') no_validators JNull name_ctl) = JNull"
    by (simp_all add: reset_ctl_def Let_def)
  have call: "m_reset (spec_control (JStr ''none'') no_validators) 40 v (heap w_name) =
      Inr ((), form_store(40 := reset_ctl (JStr ''none'') no_validators v name_ctl))" for v
    by (simp add: spec_control_def ctl_reset_def at40)
  note inst = reset_default_undefined [of "spec_control (JStr ''none'') no_validators" w_name 40]
  have same: "reset (spec_control (JStr ''none'') no_validators) None w_name =
     reset (spec_control (JStr ''none'') no_validators) (Some JUndefined) w_name"
    using inst [THEN conjunct1] .
  have "reset (spec_control (JStr ''none'') no_validators) None w_name =
     Inr ((), w_name\<lparr>heap := form_store
       (40 := reset_ctl (JStr ''none'') no_validators JUndefined name_ctl)\<rparr>)"
    and "reset (spec_control (JStr ''none'') no_validators) (Some JNull) w_name =
     Inr ((), w_name\<lparr>heap := form_store
       (40 := reset_ctl (JStr ''none'') no_validators JNull name_ctl)\<rparr>)"
    using inst [THEN conjunct2, THEN conjunct2] bound by (simp_all add: call)
  with same have "reset (spec_control (JStr ''none'') no_validators) None w_name =
     reset (spec_control (JStr ''none'') no_validators) (Some JUndefined) w_name \<and>
   reset (spec_control (JStr ''none'') no_validators) None w_name =
     Inr ((), w_name\<lparr>heap := form_store
       (40 := reset_ctl (JStr ''none'') no_validators JUndefined name_ctl)\<rparr>) \<and>
   reset (spec_control (JStr ''none'') no_validators) (Some JNull) w_name =
     Inr ((), w_name\<lparr>heap := form_store
       (40 := reset_ctl (JStr ''none'') no_validators JNull name_ctl)\<rparr>)"
    by (intro conjI)
  with bound vals show ?thesis by (intro conjI) (elim conjE, assumption)+
qed


section \<open>Reading changes nothing\<close>

lemma twice_pure: "f w = Inr (x, w) \<Longrightarrow> twice f w = Inr ((x, x), w)"
  by (simp add: twice_def)

lemma getters_pure:
  "(\<exists>x. get_value w = Inr (x, w)) \<and> (\<exists>x. get_valid w = Inr (x, w)) \<and>
   (\<exists>x. get_invalid w = Inr (x, w)) \<and> (\<exists>x. get_pending w = Inr (x, w)) \<and>
   (\<exists>x. get_disabled w = Inr (x, w)) \<and> (\<exists>x. get_enabled w = Inr (x, w)) \<and>
   (\<exists>x. get_errors w = Inr (x, w)) \<and> (\<exists>x. get_pristine w = Inr (x, w)) \<and>
   (\<exists>x. get_dirty w = Inr (x, w)) \<and> (\<exists>x. get_touched w = Inr (x, w)) \<and>
   (\<exists>x. get_status w = Inr (x, w)) \<and> (\<exists>x. get_untouched w = Inr (x, w)) \<and>
   (\<exists>x. get_statusChanges w = Inr (x, w)) \<and> (\<exists>x. get_valueChanges w = Inr (x, w)) \<and>
   (\<exists>x. get_path w = Inr (x, w))"
  by (cases "control w") (simp_all add: getter_defs member_def ret_def)

lemma getters_same_control:
  assumes "same_control w w2"
  shows "result (get_value w) = result (get_value w2) \<and>
         result (get_valid w) = result (get_valid w2) \<and>
         result (get_invalid w) = result (get_invalid w2) \<and>
         result (get_pending w) = result (get_pending w2) \<and>
         result (get_disabled w) = result (get_disabled w2) \<and>
         result (get_enabled w) = result (get_enabled w2) \<and>
         result (get_errors w) = result (get_errors w2) \<and>
         result (get_pristine w) = result (get_pristine w2) \<and>
         result (get_dirty w) = result (get_dirty w2) \<and>
         result (get_touched w) = result (get_touched w2) \<and>
         result (get_status w) = result (get_status w2) \<and>
         result (get_untouched w) = result (get_untouched w2) \<and>
         result (get_statusChanges w) = result (get_statusChanges w2) \<and>
         result (get_valueChanges w) = result (get_valueChanges w2) \<and>
         result (get_path w) = result (get_path w2)"
  using assms
  by (cases "control w")
     (simp_all add: same_control_def getter_defs member_def ret_def result_def)

lemma invoke_read_only:
  assumes "\<forall>r x h'. control w = Some r \<and> m r (heap w) = Inr (x, h') \<longrightarrow> h' = heap w"
    and "(if truthy (control w) then invoke m w else ret d w) = Inr (x, w')"
  shows "w' = w"
proof (cases "control w")
  case None
  with assms(2) show ?thesis by (simp add: ret_def)
next
  case (Some r)
  with assms(2) obtain h' where m: "m r (heap w) = Inr (x, h')" and w': "w' = w\<lparr>heap := h'\<rparr>"
    by (auto simp: invoke_def split: sum.splits)
  from assms(1) Some m have "h' = heap w" by blast
  with w' show ?thesis by simp
qed

text \<open>
  C9. Every getter returns with the state as it was, so calling it again returns the
  same result, and its result is the same in any two states where \<^verbatim>\<open>this.control\<close>
  yields the same reference to a control in the same state. \<^verbatim>\<open>hasError\<close> and
  \<^verbatim>\<open>getError\<close> write nothing themselves: when the bound control's own method of that
  name leaves the store as it was for these arguments, so does the directive's, and a
  second call returns the same result. With the control's methods as the spec describes
  them, which only read, that is always so. (\<^verbatim>\<open>reset\<close> is the one operation that
  changes the control; it leaves what \<^verbatim>\<open>this.control\<close> yields alone.)
\<close>

theorem reads_change_nothing:
  assumes "\<forall>r x h'. control w = Some r \<and> m_hasError M r code path (heap w) = Inr (x, h') \<longrightarrow>
             h' = heap w"
    and "\<forall>r x h'. control w = Some r \<and> m_getError M r code path (heap w) = Inr (x, h') \<longrightarrow>
             h' = heap w"
  shows "(\<exists>x. get_value w = Inr (x, w) \<and> twice get_value w = Inr ((x, x), w)) \<and>
         (\<exists>x. get_valid w = Inr (x, w) \<and> twice get_valid w = Inr ((x, x), w)) \<and>
         (\<exists>x. get_invalid w = Inr (x, w) \<and> twice get_invalid w = Inr ((x, x), w)) \<and>
         (\<exists>x. get_pending w = Inr (x, w) \<and> twice get_pending w = Inr ((x, x), w)) \<and>
         (\<exists>x. get_disabled w = Inr (x, w) \<and> twice get_disabled w = Inr ((x, x), w)) \<and>
         (\<exists>x. get_enabled w = Inr (x, w) \<and> twice get_enabled w = Inr ((x, x), w)) \<and>
         (\<exists>x. get_errors w = Inr (x, w) \<and> twice get_errors w = Inr ((x, x), w)) \<and>
         (\<exists>x. get_pristine w = Inr (x, w) \<and> twice get_pristine w = Inr ((x, x), w)) \<and>
         (\<exists>x. get_dirty w = Inr (x, w) \<and> twice get_dirty w = Inr ((x, x), w)) \<and>
         (\<exists>x. get_touched w = Inr (x, w) \<and> twice get_touched w = Inr ((x, x), w)) \<and>
         (\<exists>x. get_status w = Inr (x, w) \<and> twice get_status w = Inr ((x, x), w)) \<and>
         (\<exists>x. get_untouched w = Inr (x, w) \<and> twice get_untouched w = Inr ((x, x), w)) \<and>
         (\<exists>x. get_statusChanges w = Inr (x, w) \<and>
              twice get_statusChanges w = Inr ((x, x), w)) \<and>
         (\<exists>x. get_valueChanges w = Inr (x, w) \<and>
              twice get_valueChanges w = Inr ((x, x), w)) \<and>
         (\<exists>x. get_path w = Inr (x, w) \<and> twice get_path w = Inr ((x, x), w)) \<and>
         (same_control w w2 \<longrightarrow>
            result (get_value w) = result (get_value w2) \<and>
            result (get_valid w) = result (get_valid w2) \<and>
            result (get_invalid w) = result (get_invalid w2) \<and>
            result (get_pending w) = result (get_pending w2) \<and>
            result (get_disabled w) = result (get_disabled w2) \<and>
            result (get_enabled w) = result (get_enabled w2) \<and>
            result (get_errors w) = result (get_errors w2) \<and>
            result (get_pristine w) = result (get_pristine w2) \<and>
            result (get_dirty w) = result (get_dirty w2) \<and>
            result (get_touched w) = result (get_touched w2) \<and>
            result (get_status w) = result (get_status w2) \<and>
            result (get_untouched w) = result (get_untouched w2) \<and>
            result (get_statusChanges w) = result (get_statusChanges w2) \<and>
            result (get_valueChanges w) = result (get_valueChanges w2) \<and>
            result (get_path w) = result (get_path w2)) \<and>
         (\<forall>x w'. hasError M code path w = Inr (x, w') \<longrightarrow>
            w' = w \<and> twice (hasError M code path) w = Inr ((x, x), w)) \<and>
         (\<forall>x w'. getError M code path w = Inr (x, w') \<longrightarrow>
            w' = w \<and> twice (getError M code path) w = Inr ((x, x), w)) \<and>
         (\<exists>x. hasError (spec_control d vs) code path w = Inr (x, w) \<and>
              twice (hasError (spec_control d vs) code path) w = Inr ((x, x), w)) \<and>
         (\<exists>x. getError (spec_control d vs) code path w = Inr (x, w) \<and>
              twice (getError (spec_control d vs) code path) w = Inr ((x, x), w))"
proof -
  have getters:
    "(\<exists>x. get_value w = Inr (x, w) \<and> twice get_value w = Inr ((x, x), w)) \<and>
     (\<exists>x. get_valid w = Inr (x, w) \<and> twice get_valid w = Inr ((x, x), w)) \<and>
     (\<exists>x. get_invalid w = Inr (x, w) \<and> twice get_invalid w = Inr ((x, x), w)) \<and>
     (\<exists>x. get_pending w = Inr (x, w) \<and> twice get_pending w = Inr ((x, x), w)) \<and>
     (\<exists>x. get_disabled w = Inr (x, w) \<and> twice get_disabled w = Inr ((x, x), w)) \<and>
     (\<exists>x. get_enabled w = Inr (x, w) \<and> twice get_enabled w = Inr ((x, x), w)) \<and>
     (\<exists>x. get_errors w = Inr (x, w) \<and> twice get_errors w = Inr ((x, x), w)) \<and>
     (\<exists>x. get_pristine w = Inr (x, w) \<and> twice get_pristine w = Inr ((x, x), w)) \<and>
     (\<exists>x. get_dirty w = Inr (x, w) \<and> twice get_dirty w = Inr ((x, x), w)) \<and>
     (\<exists>x. get_touched w = Inr (x, w) \<and> twice get_touched w = Inr ((x, x), w)) \<and>
     (\<exists>x. get_status w = Inr (x, w) \<and> twice get_status w = Inr ((x, x), w)) \<and>
     (\<exists>x. get_untouched w = Inr (x, w) \<and> twice get_untouched w = Inr ((x, x), w)) \<and>
     (\<exists>x. get_statusChanges w = Inr (x, w) \<and>
          twice get_statusChanges w = Inr ((x, x), w)) \<and>
     (\<exists>x. get_valueChanges w = Inr (x, w) \<and>
          twice get_valueChanges w = Inr ((x, x), w)) \<and>
     (\<exists>x. get_path w = Inr (x, w) \<and> twice get_path w = Inr ((x, x), w))"
    using getters_pure [of w] by (auto simp: twice_def)
  have has: "w' = w \<and> twice (hasError M code path) w = Inr ((x, x), w)"
    if "hasError M code path w = Inr (x, w')" for x w'
  proof -
    from assms(1) that have "w' = w"
      unfolding hasError_def
      by (rule invoke_read_only [of w "\<lambda>r. m_hasError M r code path" False x w'])
    with that show ?thesis by (simp add: twice_pure)
  qed
  have get: "w' = w \<and> twice (getError M code path) w = Inr ((x, x), w)"
    if "getError M code path w = Inr (x, w')" for x w'
  proof -
    from assms(2) that have "w' = w"
      unfolding getError_def
      by (rule invoke_read_only [of w "\<lambda>r. m_getError M r code path" JNull x w'])
    with that show ?thesis by (simp add: twice_pure)
  qed
  have same: "same_control w w2 \<longrightarrow>
            result (get_value w) = result (get_value w2) \<and>
            result (get_valid w) = result (get_valid w2) \<and>
            result (get_invalid w) = result (get_invalid w2) \<and>
            result (get_pending w) = result (get_pending w2) \<and>
            result (get_disabled w) = result (get_disabled w2) \<and>
            result (get_enabled w) = result (get_enabled w2) \<and>
            result (get_errors w) = result (get_errors w2) \<and>
            result (get_pristine w) = result (get_pristine w2) \<and>
            result (get_dirty w) = result (get_dirty w2) \<and>
            result (get_touched w) = result (get_touched w2) \<and>
            result (get_status w) = result (get_status w2) \<and>
            result (get_untouched w) = result (get_untouched w2) \<and>
            result (get_statusChanges w) = result (get_statusChanges w2) \<and>
            result (get_valueChanges w) = result (get_valueChanges w2) \<and>
            result (get_path w) = result (get_path w2)"
    by (rule impI) (rule getters_same_control)
  from has have has': "\<forall>x w'. hasError M code path w = Inr (x, w') \<longrightarrow>
            w' = w \<and> twice (hasError M code path) w = Inr ((x, x), w)"
    by (intro allI impI)
  from get have get': "\<forall>x w'. getError M code path w = Inr (x, w') \<longrightarrow>
            w' = w \<and> twice (getError M code path) w = Inr ((x, x), w)"
    by (intro allI impI)
  have spec_has: "\<exists>x. hasError (spec_control d vs) code path w = Inr (x, w) \<and>
      twice (hasError (spec_control d vs) code path) w = Inr ((x, x), w)"
    by (simp add: hasError_spec twice_def)
  have spec_get: "\<exists>x. getError (spec_control d vs) code path w = Inr (x, w) \<and>
      twice (getError (spec_control d vs) code path) w = Inr ((x, x), w)"
    by (simp add: getError_spec twice_def)
  show ?thesis
    apply (insert getters same has' get' spec_has spec_get)
    apply (elim conjE)
    apply (intro conjI; assumption)
    done
qed


theorem reads_change_nothing_witness:
  "same_control w_form w_form' \<and>
   get_status w_form = Inr (Some ''INVALID'', w_form) \<and>
   twice get_status w_form = Inr ((Some ''INVALID'', Some ''INVALID''), w_form) \<and>
   result (get_status w_form) = result (get_status w_form') \<and>
   result (get_valueChanges w_form) = result (get_valueChanges w_form') \<and>
   hasError M0 ''pattern'' (Some [''address'', ''zip'']) w_form = Inr (True, w_form) \<and>
   twice (hasError M0 ''pattern'' (Some [''address'', ''zip''])) w_form =
     Inr ((True, True), w_form) \<and>
   getError M0 ''pattern'' (Some [''address'', ''zip'']) w_form =
     Inr (JObj [(''requiredPattern'', JStr ''[0-9]{5}'')], w_form) \<and>
   twice (getError M0 ''pattern'' (Some [''address'', ''zip''])) w_form =
     Inr ((JObj [(''requiredPattern'', JStr ''[0-9]{5}'')],
           JObj [(''requiredPattern'', JStr ''[0-9]{5}'')]), w_form)"
proof -
  have ro_has: "\<forall>r x h'. control w_form = Some r \<and>
      m_hasError M0 r ''pattern'' (Some [''address'', ''zip'']) (heap w_form) = Inr (x, h') \<longrightarrow>
      h' = heap w_form"
    by (auto simp: M0_def spec_control_def ctl_hasError_def)
  have ro_get: "\<forall>r x h'. control w_form = Some r \<and>
      m_getError M0 r ''pattern'' (Some [''address'', ''zip'']) (heap w_form) = Inr (x, h') \<longrightarrow>
      h' = heap w_form"
    by (auto simp: M0_def spec_control_def ctl_getError_def)
  note inst = reads_change_nothing [OF ro_has ro_get, of w_form' JNull no_validators]
  have same: "same_control w_form w_form'"
    by (simp add: same_control_def w_form_def w_form'_def form_store_def)
  have status: "get_status w_form = Inr (Some ''INVALID'', w_form)"
    by (simp add: get_status_def member_def w_form_def form_store_def form_ctl_def
        invalid_ctl_def blank_def)
  have has: "hasError M0 ''pattern'' (Some [''address'', ''zip'']) w_form = Inr (True, w_form)"
    by (simp add: M0_def hasError_spec w_form_def target_def form_paths contains_code_def)
  have get: "getError M0 ''pattern'' (Some [''address'', ''zip'']) w_form =
      Inr (JObj [(''requiredPattern'', JStr ''[0-9]{5}'')], w_form)"
    by (simp add: M0_def getError_spec w_form_def target_def form_paths error_detail_def)
  from inst have "\<exists>x. get_status w_form = Inr (x, w_form) \<and>
      twice get_status w_form = Inr ((x, x), w_form)"
    by (elim conjE)
  with status have status2:
    "twice get_status w_form = Inr ((Some ''INVALID'', Some ''INVALID''), w_form)"
    by auto
  from inst have "same_control w_form w_form' \<longrightarrow>
            result (get_value w_form) = result (get_value w_form') \<and>
            result (get_valid w_form) = result (get_valid w_form') \<and>
            result (get_invalid w_form) = result (get_invalid w_form') \<and>
            result (get_pending w_form) = result (get_pending w_form') \<and>
            result (get_disabled w_form) = result (get_disabled w_form') \<and>
            result (get_enabled w_form) = result (get_enabled w_form') \<and>
            result (get_errors w_form) = result (get_errors w_form') \<and>
            result (get_pristine w_form) = result (get_pristine w_form') \<and>
            result (get_dirty w_form) = result (get_dirty w_form') \<and>
            result (get_touched w_form) = result (get_touched w_form') \<and>
            result (get_status w_form) = result (get_status w_form') \<and>
            result (get_untouched w_form) = result (get_untouched w_form') \<and>
            result (get_statusChanges w_form) = result (get_statusChanges w_form') \<and>
            result (get_valueChanges w_form) = result (get_valueChanges w_form') \<and>
            result (get_path w_form) = result (get_path w_form')"
    by (elim conjE)
  with same have two: "result (get_status w_form) = result (get_status w_form')"
    "result (get_valueChanges w_form) = result (get_valueChanges w_form')"
    by blast+
  from inst have "\<forall>x w'. hasError M0 ''pattern'' (Some [''address'', ''zip'']) w_form = Inr (x, w') \<longrightarrow>
      w' = w_form \<and>
      twice (hasError M0 ''pattern'' (Some [''address'', ''zip''])) w_form = Inr ((x, x), w_form)"
    by (elim conjE)
  with has have has2: "twice (hasError M0 ''pattern'' (Some [''address'', ''zip''])) w_form =
      Inr ((True, True), w_form)"
    by blast
  from inst have "\<forall>x w'. getError M0 ''pattern'' (Some [''address'', ''zip'']) w_form = Inr (x, w') \<longrightarrow>
      w' = w_form \<and>
      twice (getError M0 ''pattern'' (Some [''address'', ''zip''])) w_form = Inr ((x, x), w_form)"
    by (elim conjE)
  with get have get2: "twice (getError M0 ''pattern'' (Some [''address'', ''zip''])) w_form =
      Inr ((JObj [(''requiredPattern'', JStr ''[0-9]{5}'')],
            JObj [(''requiredPattern'', JStr ''[0-9]{5}'')]), w_form)"
    by blast
  from same status status2 two has has2 get get2 show ?thesis
    by (intro conjI)
qed


end
